theory Spec2Isabelle
  imports Main "HOL-Library.Sublist"
begin

section \<open>Python values and exceptions\<close>

text \<open>
  Everything the client reads from the service is a decoded JSON document. Numbers are
  modelled as integers (every number the client inspects is a count, a size, an index or
  a status code). A dictionary is the list of its items, looked up with \<open>map_of\<close>.
  Python's \<open>None\<close> is \<open>JNull\<close>.
\<close>

datatype json =
    JNull
  | JBool bool
  | JNum int
  | JStr string
  | JArr "json list"
  | JObj "(string \<times> json) list"

text \<open>
  The exceptions that the modelled code can meet. All of them derive from Python's
  \<open>Exception\<close>; \<open>HTTPError\<close> and \<open>RequestException\<close> are the ones of the
  \<open>requests\<close> library, \<open>ValidationError\<close> is pydantic's, \<open>CallbackError\<close> stands for
  whatever a caller-supplied callback raises. \<open>KeyboardInterrupt\<close> and \<open>SystemExit\<close>,
  which no \<open>except Exception\<close> catches, are not modelled.
\<close>

datatype exn =
    AttributeError
  | TypeError
  | KeyError
  | IndexError
  | ValueError
  | ValidationError
  | JSONDecodeError
  | HTTPError
  | RequestException
  | CallbackError

text \<open>Sequencing of computations that may raise.\<close>

definition sbind :: "exn + 'a \<Rightarrow> ('a \<Rightarrow> exn + 'b) \<Rightarrow> exn + 'b" where
  "sbind m f = (case m of Inl e \<Rightarrow> Inl e | Inr x \<Rightarrow> f x)"

text \<open>Truth value of an object (\<open>if x\<close>, \<open>not x\<close>).\<close>

fun truthy :: "json \<Rightarrow> bool" where
  "truthy JNull = False"
| "truthy (JBool b) = b"
| "truthy (JNum n) = (n \<noteq> 0)"
| "truthy (JStr s) = (s \<noteq> [])"
| "truthy (JArr xs) = (xs \<noteq> [])"
| "truthy (JObj kvs) = (kvs \<noteq> [])"

text \<open>\<open>d.get(k, default)\<close>: only a dict has the method.\<close>

fun py_get_default :: "json \<Rightarrow> string \<Rightarrow> json \<Rightarrow> exn + json" where
  "py_get_default (JObj kvs) k dflt = Inr (case map_of kvs k of None \<Rightarrow> dflt | Some v \<Rightarrow> v)"
| "py_get_default _ k dflt = Inl AttributeError"

text \<open>\<open>d.get(k)\<close> is \<open>d.get(k, None)\<close>.\<close>

definition py_get :: "json \<Rightarrow> string \<Rightarrow> exn + json" where
  "py_get d k = py_get_default d k JNull"

text \<open>\<open>x[0]\<close>. No key of a decoded JSON object is the integer 0.\<close>

fun py_item0 :: "json \<Rightarrow> exn + json" where
  "py_item0 (JArr []) = Inl IndexError"
| "py_item0 (JArr (x # xs)) = Inr x"
| "py_item0 (JStr []) = Inl IndexError"
| "py_item0 (JStr (c # cs)) = Inr (JStr [c])"
| "py_item0 (JObj kvs) = Inl KeyError"
| "py_item0 _ = Inl TypeError"

text \<open>
  The elements that \<open>for x in v\<close> visits: the items of a list, the characters of a
  string, the keys of a dict; nothing else is iterable.
\<close>

fun py_iter :: "json \<Rightarrow> exn + json list" where
  "py_iter (JArr xs) = Inr xs"
| "py_iter (JStr s) = Inr (map (\<lambda>c. JStr [c]) s)"
| "py_iter (JObj kvs) = Inr (map (\<lambda>kv. JStr (fst kv)) kvs)"
| "py_iter _ = Inl TypeError"

text \<open>\<open>x == k\<close> for an integer \<open>k\<close>: \<open>bool\<close> is a subclass of \<open>int\<close>.\<close>

fun py_eq_int :: "json \<Rightarrow> int \<Rightarrow> bool" where
  "py_eq_int (JNum n) k = (n = k)"
| "py_eq_int (JBool b) k = ((if b then 1 else 0) = k)"
| "py_eq_int _ k = False"

text \<open>Decimal rendering of an integer, \<open>str(n)\<close>.\<close>

definition digit_char :: "nat \<Rightarrow> char" where
  "digit_char d = ''0123456789'' ! d"

function digits :: "nat \<Rightarrow> string" where
  "digits n = (if n < 10 then [digit_char n] else digits (n div 10) @ [digit_char (n mod 10)])"
  by pat_completeness auto
termination
  by (relation "measure (\<lambda>n. n)") auto

declare digits.simps [simp del]

definition str_int :: "int \<Rightarrow> string" where
  "str_int n = (if n < 0 then CHR ''-'' # digits (nat (- n)) else digits (nat n))"

text \<open>\<open>sep.join(xs)\<close>.\<close>

fun join :: "string \<Rightarrow> string list \<Rightarrow> string" where
  "join sep [] = []"
| "join sep [x] = x"
| "join sep (x # y # ys) = x @ sep @ join sep (y # ys)"

section \<open>Records of the client\<close>

datatype datetime = Datetime int

record TaskInfo =
  name :: string
  file_name :: string
  file_size :: int
  updated_time :: datetime
  progress :: int
  real_path :: string
  speed :: int
  created_time :: datetime
  origin :: json

record TaskFile =
  index :: int
  file_name :: string
  file_size :: int

section \<open>The environment of a client\<close>

text \<open>
  A request names the endpoint it goes to and carries what the client puts into it: the
  \<open>pan-auth\<close> header, and the device id, the magnet link or the JSON body.
\<close>

datatype phase_filter = Complete | Uncomplete

datatype request =
    GetIndex
  | PostDeviceInfo string
  | GetTasks phase_filter string string
  | PostResourceList string string
  | PostFiles json string
  | PostTask json string
  | PostPatchTask json string string

record response =
  status_code :: int
  resp_text :: string
  json_body :: "json option"

text \<open>
  What the code does not decide is a parameter: the service (\<open>respond\<close> answers a
  request, given the requests issued before it, or fails as the transport does), the
  clock (\<open>clock n\<close> is the \<open>n\<close>-th reading of \<open>int(time.time())\<close>), pydantic's
  validation of a value for a \<open>str\<close>, an \<open>int\<close> and a \<open>datetime\<close> field, Python's
  \<open>int()\<close> on a string and \<open>str()\<close> on a list or a dict.
\<close>

record env =
  respond :: "request list \<Rightarrow> request \<Rightarrow> exn + response"
  clock :: "nat \<Rightarrow> int"
  str_field :: "json \<Rightarrow> string option"
  int_field :: "json \<Rightarrow> int option"
  datetime_field :: "json \<Rightarrow> datetime option"
  int_of_str :: "string \<Rightarrow> int option"
  container_str :: "json \<Rightarrow> string"

section \<open>Filtering by size\<close>

text \<open>
  \<open>filter_file_by_size\<close>; an argument left out is \<open>None\<close> and takes the default of
  the signature.
\<close>

definition filter_file_by_size :: "TaskFile list \<Rightarrow> int option \<Rightarrow> int option \<Rightarrow> TaskFile list" where
  "filter_file_by_size task_files min_size max_size =
     (let mn = (case min_size of None \<Rightarrow> 500 * 1024 * 1024 | Some m \<Rightarrow> m);
          mx = (case max_size of None \<Rightarrow> 40 * 1024 * 1024 * 1024 | Some m \<Rightarrow> m)
      in if task_files = [] then []
         else [i \<leftarrow> task_files. mn \<le> file_size i \<and> file_size i \<le> mx])"

section \<open>Flattening the resource tree\<close>

text \<open>\<open>TaskFile(index=i, file_size=sz, file_name=nm)\<close>: pydantic validates each field.\<close>

definition mk_TaskFile :: "env \<Rightarrow> json \<Rightarrow> json \<Rightarrow> json \<Rightarrow> exn + TaskFile" where
  "mk_TaskFile E i sz nm =
     (case (int_field E i, str_field E nm, int_field E sz) of
        (Some i', Some nm', Some sz') \<Rightarrow> Inr \<lparr>index = i', file_name = nm', file_size = sz'\<rparr>
      | _ \<Rightarrow> Inl ValidationError)"

lemma sbind_cong [fundef_cong]:
  "m = m' \<Longrightarrow> (\<And>x. m' = Inr x \<Longrightarrow> f x = f' x) \<Longrightarrow> sbind m f = sbind m' f'"
  by (cases m') (simp_all add: sbind_def)

text \<open>Children count for more than their parent's siblings: the measure of \<open>helper\<close>.\<close>

fun weight :: "json \<Rightarrow> nat" where
  "weight (JArr xs) = Suc (sum_list (map weight xs))"
| "weight (JObj kvs) = Suc (sum_list (map (\<lambda>kv. weight (snd kv)) kvs))"
| "weight _ = 0"

text \<open>
  \<open>helper\<close>, local to \<open>download_magnetic\<close>. The result is the sequence of entries that
  the call appends to \<open>task_files\<close>; an exception ends the traversal.
\<close>

function helper :: "env \<Rightarrow> json list \<Rightarrow> exn + TaskFile list" where
  "helper E [] = Inr []"
| "helper E (resource # resources) =
     sbind (py_get resource ''is_dir'') (\<lambda>is_dir.
       if truthy is_dir then
         sbind (py_get resource ''dir'') (\<lambda>d.
         sbind (py_get d ''resources'') (\<lambda>rs.
         sbind (py_iter rs) (\<lambda>children.
         sbind (helper E children) (\<lambda>below.
         sbind (helper E resources) (\<lambda>after.
         Inr (below @ after))))))
       else
         sbind (py_get resource ''file_index'') (\<lambda>fi.
         sbind (py_get resource ''file_size'') (\<lambda>sz.
         sbind (py_get resource ''name'') (\<lambda>nm.
         sbind (mk_TaskFile E (if \<not> truthy fi then JNum 0 else fi) sz nm) (\<lambda>tf.
         sbind (helper E resources) (\<lambda>after.
         Inr (tf # after)))))))"
  by pat_completeness auto

lemma weight_map_of:
  "map_of kvs k = Some v \<Longrightarrow> weight v \<le> sum_list (map (\<lambda>kv. weight (snd kv)) kvs)"
  by (induction kvs) (auto split: if_splits)

lemma weight_py_get: "py_get d k = Inr v \<Longrightarrow> weight v < weight d"
  by (cases d) (auto simp: py_get_def dest: weight_map_of split: option.splits)

lemma weight_py_iter: "py_iter v = Inr xs \<Longrightarrow> sum_list (map weight xs) \<le> weight v"
  by (cases v) (auto simp: comp_def)

termination helper
proof (relation "inv_image (less_than <*lex*> less_than)
         (\<lambda>p. (sum_list (map weight (snd p)), length (snd p)))", goal_cases)
  case 1
  show ?case by (intro wf_inv_image wf_lex_prod wf_less_than)
next
  case (2 E resource resources is_dir d rs children)
  from 2 have "sum_list (map weight children) < weight resource"
    using weight_py_get [of resource "''dir''" d] weight_py_get [of d "''resources''" rs]
      weight_py_iter [of rs children] by simp
  then show ?case by simp
next
  case 3
  show ?case by auto
next
  case 4
  show ?case by auto
qed

section \<open>The client and its requests\<close>

text \<open>
  The attributes of a client that the modelled methods read or write, with the requests
  issued so far (oldest first) and the number of clock readings taken.
\<close>

record client =
  device_id :: json
  token_str :: "string option"
  token_time :: int
  parent_folder_id :: json
  sent :: "request list"
  ticks :: nat

text \<open>A method runs on a client and returns a value or raises; either way the client changes.\<close>

type_synonym 'a io = "client \<Rightarrow> (exn + 'a) \<times> client"

definition ret :: "'a \<Rightarrow> 'a io" where
  "ret x = (\<lambda>s. (Inr x, s))"

definition throw :: "exn \<Rightarrow> 'a io" where
  "throw e = (\<lambda>s. (Inl e, s))"

definition lift :: "exn + 'a \<Rightarrow> 'a io" where
  "lift r = (\<lambda>s. (r, s))"

definition bnd :: "'a io \<Rightarrow> ('a \<Rightarrow> 'b io) \<Rightarrow> 'b io" where
  "bnd m f = (\<lambda>s. case m s of (Inl e, s') \<Rightarrow> (Inl e, s') | (Inr x, s') \<Rightarrow> f x s')"

definition attr :: "(client \<Rightarrow> 'a) \<Rightarrow> 'a io" where
  "attr f = (\<lambda>s. (Inr (f s), s))"

text \<open>
  \<open>self._session.get\<close> and \<open>self._session.post\<close>: the request is issued, then answered
  or failed by the transport; a request that stays unanswered for ever is not modelled.
\<close>

definition session_request :: "env \<Rightarrow> request \<Rightarrow> response io" where
  "session_request E rq = (\<lambda>s. (respond E (sent s) rq, s\<lparr>sent := sent s @ [rq]\<rparr>))"

text \<open>\<open>int(time.time())\<close>.\<close>

definition time_now :: "env \<Rightarrow> client \<Rightarrow> int \<times> client" where
  "time_now E s = (clock E (ticks s), s\<lparr>ticks := Suc (ticks s)\<rparr>)"

text \<open>\<open>response.json()\<close> and \<open>response.raise_for_status()\<close>.\<close>

definition response_json :: "response \<Rightarrow> exn + json" where
  "response_json r = (case json_body r of None \<Rightarrow> Inl JSONDecodeError | Some j \<Rightarrow> Inr j)"

definition raise_for_status :: "response \<Rightarrow> exn + unit" where
  "raise_for_status r = (if 400 \<le> status_code r \<and> status_code r < 600 then Inl HTTPError else Inr ())"

section \<open>The authentication token\<close>

text \<open>
  \<open>re.findall\<close> with the pattern \<open>function uiauth\(value\){ return "(.*)" }\<close>: the text
  between the two literals, as long as it can be on one line, for each match from left
  to right.
\<close>

definition uiauth_open :: string where
  \<open>uiauth_open = ''function uiauth(value){ return "''\<close>

definition uiauth_close :: string where
  \<open>uiauth_close = ''" }''\<close>

fun greedy_until :: "string \<Rightarrow> string \<Rightarrow> string option" where
  "greedy_until q [] = (if q = [] then Some [] else None)"
| "greedy_until q (c # cs) =
     (case greedy_until q cs of
        Some g \<Rightarrow> Some (c # g)
      | None \<Rightarrow> if prefix q (c # cs) then Some [] else None)"

function findall_uiauth :: "string \<Rightarrow> string list" where
  "findall_uiauth [] = []"
| "findall_uiauth (c # cs) =
     (if prefix uiauth_open (c # cs) then
        (case greedy_until uiauth_close
                (takeWhile (\<lambda>x. x \<noteq> CHR 0x0A) (drop (length uiauth_open) (c # cs))) of
           Some g \<Rightarrow>
             g # findall_uiauth (drop (length uiauth_open + length g + length uiauth_close) (c # cs))
         | None \<Rightarrow> findall_uiauth cs)
      else findall_uiauth cs)"
  by pat_completeness auto
termination
  by (relation "measure length") (auto simp: uiauth_open_def)

text \<open>The \<open>try\<close> block of \<open>get_pan_auth\<close>.\<close>

definition fetch_pan_auth :: "env \<Rightarrow> client \<Rightarrow> string \<times> client" where
  "fetch_pan_auth E s =
     (case session_request E GetIndex s of
        (Inl e, s1) \<Rightarrow> ([], s1)
      | (Inr resp, s1) \<Rightarrow>
          if status_code resp \<noteq> 200 then ([], s1)
          else (case findall_uiauth (resp_text resp) of
                  [] \<Rightarrow> ([], s1)
                | m # ms \<Rightarrow>
                    (case time_now E (s1\<lparr>token_str := Some m\<rparr>) of
                       (t, s2) \<Rightarrow> (m, s2\<lparr>token_time := t\<rparr>))))"

text \<open>\<open>get_pan_auth\<close>. The clock is read only when a token is cached.\<close>

definition get_pan_auth :: "env \<Rightarrow> client \<Rightarrow> string \<times> client" where
  "get_pan_auth E s =
     (case token_str s of
        None \<Rightarrow> fetch_pan_auth E s
      | Some tok \<Rightarrow>
          (case time_now E s of
             (t, s1) \<Rightarrow> if token_time s1 + 600 > t then (tok, s1) else fetch_pan_auth E s1))"

text \<open>The \<open>headers\<close> property: its \<open>pan-auth\<close> entry; the other entries are constants.\<close>

definition headers :: "env \<Rightarrow> string io" where
  "headers E = (\<lambda>s. case get_pan_auth E s of (tok, s') \<Rightarrow> (Inr tok, s'))"

section \<open>The device id\<close>

definition is_request_exception :: "exn \<Rightarrow> bool" where
  "is_request_exception e = (e = RequestException \<or> e = HTTPError \<or> e = JSONDecodeError)"

definition set_device_id :: "json \<Rightarrow> unit io" where
  "set_device_id d = (\<lambda>s. (Inr (), s\<lparr>device_id := d\<rparr>))"

definition get_device_id :: "env \<Rightarrow> json io" where
  "get_device_id E = (\<lambda>s.
     if device_id s \<noteq> JNull then (Inr (device_id s), s)
     else
       (case bnd (headers E) (\<lambda>token.
               if token = [] then throw ValueError
               else
                 bnd (session_request E (PostDeviceInfo token)) (\<lambda>req.
                 bnd (if status_code req \<noteq> 200 then lift (raise_for_status req) else ret ()) (\<lambda>_.
                 bnd (lift (response_json req)) (\<lambda>data.
                 bnd (lift (py_get data ''target'')) (\<lambda>target.
                 bnd (set_device_id target) (\<lambda>_.
                 if \<not> truthy target then throw ValueError else ret target)))))) s of
          (Inl e, s') \<Rightarrow> (Inl (if is_request_exception e then e else ValueError), s')
        | (Inr d, s') \<Rightarrow> (Inr d, s')))"

section \<open>Listing tasks\<close>

text \<open>Python's \<open>int(x)\<close>.\<close>

fun py_int :: "env \<Rightarrow> json \<Rightarrow> exn + int" where
  "py_int E (JNum n) = Inr n"
| "py_int E (JBool b) = Inr (if b then 1 else 0)"
| "py_int E (JStr s) = (case int_of_str E s of None \<Rightarrow> Inl ValueError | Some n \<Rightarrow> Inr n)"
| "py_int E _ = Inl TypeError"

text \<open>
  The body of the loop of \<open>completed_tasks\<close> and of \<open>uncompleted_tasks\<close>: the
  arguments are computed, then pydantic validates each field of the \<open>TaskInfo\<close>.
\<close>

definition mk_TaskInfo :: "env \<Rightarrow> json \<Rightarrow> exn + TaskInfo" where
  "mk_TaskInfo E task =
     sbind (py_get task ''progress'') (\<lambda>p.
     sbind (py_get task ''name'') (\<lambda>nm.
     sbind (py_get task ''file_size'') (\<lambda>fs.
     sbind (py_int E fs) (\<lambda>fsz.
     sbind (py_get task ''updated_time'') (\<lambda>ut.
     sbind (py_get task ''params'') (\<lambda>params.
     sbind (py_get params ''real_path'') (\<lambda>rp.
     sbind (py_get_default params ''speed'' (JNum 0)) (\<lambda>sp.
     sbind (py_int E sp) (\<lambda>spd.
     sbind (py_get task ''created_time'') (\<lambda>ct.
       (case (str_field E nm, int_field E (JNum fsz), datetime_field E ut,
              int_field E (if truthy p then p else JNum 0), str_field E rp,
              int_field E (JNum spd), datetime_field E ct) of
          (Some n, Some sz, Some u, Some pr, Some path, Some v, Some c) \<Rightarrow>
            Inr \<lparr>name = n, file_name = n, file_size = sz, updated_time = u, progress = pr,
                 real_path = path, speed = v, created_time = c, origin = task\<rparr>
        | _ \<Rightarrow> Inl ValidationError)))))))))))"

fun mk_TaskInfos :: "env \<Rightarrow> json list \<Rightarrow> exn + TaskInfo list" where
  "mk_TaskInfos E [] = Inr []"
| "mk_TaskInfos E (task # tasks) =
     sbind (mk_TaskInfo E task) (\<lambda>t. sbind (mk_TaskInfos E tasks) (\<lambda>ts. Inr (t # ts)))"

text \<open>\<open>quote(self._device_id)\<close> accepts a string only.\<close>

definition quote_device_id :: "json \<Rightarrow> exn + string" where
  "quote_device_id d = (case d of JStr x \<Rightarrow> Inr x | _ \<Rightarrow> Inl TypeError)"

text \<open>The two listings differ in the phases that the URL asks for.\<close>

definition list_tasks :: "env \<Rightarrow> phase_filter \<Rightarrow> TaskInfo list io" where
  "list_tasks E ph =
     bnd (attr device_id) (\<lambda>dev.
     bnd (lift (quote_device_id dev)) (\<lambda>space.
     bnd (headers E) (\<lambda>tok.
     bnd (session_request E (GetTasks ph space tok)) (\<lambda>resp.
     bnd (lift (response_json resp)) (\<lambda>data.
     bnd (lift (py_get data ''tasks'')) (\<lambda>tasks.
     if \<not> truthy tasks then ret []
     else bnd (lift (py_iter tasks)) (\<lambda>ts. lift (mk_TaskInfos E ts))))))))"

definition completed_tasks :: "env \<Rightarrow> TaskInfo list io" where
  "completed_tasks E = list_tasks E Complete"

definition uncompleted_tasks :: "env \<Rightarrow> TaskInfo list io" where
  "uncompleted_tasks E = list_tasks E Uncomplete"

section \<open>Submitting a magnet link\<close>

text \<open>The object that \<open>download_magnetic\<close> returns: an \<open>int\<close>, or \<open>False\<close>.\<close>

datatype outcome = PyInt int | PyBool bool

text \<open>The value of the returned object as an integer (\<open>False == 0\<close>, \<open>True == 1\<close>).\<close>

fun int_value :: "outcome \<Rightarrow> int" where
  "int_value (PyInt n) = n"
| "int_value (PyBool b) = (if b then 1 else 0)"

text \<open>\<open>task_name in all_task_names\<close>: a list or a dict cannot be hashed.\<close>

fun name_in :: "json \<Rightarrow> string list \<Rightarrow> exn + bool" where
  "name_in (JStr n) names = Inr (n \<in> set names)"
| "name_in (JArr xs) names = Inl TypeError"
| "name_in (JObj kvs) names = Inl TypeError"
| "name_in _ names = Inr False"

text \<open>\<open>str(x)\<close> of a decoded value.\<close>

fun py_str :: "env \<Rightarrow> json \<Rightarrow> string" where
  "py_str E JNull = ''None''"
| "py_str E (JBool b) = (if b then ''True'' else ''False'')"
| "py_str E (JNum n) = str_int n"
| "py_str E (JStr s) = s"
| "py_str E v = container_str E v"

text \<open>The body of the task-creation request.\<close>

definition task_body ::
  "env \<Rightarrow> json \<Rightarrow> TaskFile list \<Rightarrow> json \<Rightarrow> string \<Rightarrow> json \<Rightarrow> json \<Rightarrow> string list \<Rightarrow> json" where
  "task_body E task_name task_files dev magnetic_link task_file_count target_parent_id sub_file_index =
     JObj [
       (''type'', JStr ''user#download-url''),
       (''name'', task_name),
       (''file_name'', task_name),
       (''file_size'', JStr (str_int (sum_list (map file_size task_files)))),
       (''space'', dev),
       (''params'', JObj [
          (''target'', dev),
          (''url'', JStr magnetic_link),
          (''total_file_count'', JStr (py_str E task_file_count)),
          (''parent_folder_id'', target_parent_id),
          (''sub_file_index'', JStr (join '','' sub_file_index)),
          (''file_id'', JStr [])])]"

text \<open>The body of the folder-creation request.\<close>

definition folder_body :: "json \<Rightarrow> string \<Rightarrow> json \<Rightarrow> json" where
  "folder_body parent sub_dir dev =
     JObj [(''parent_id'', parent), (''name'', JStr sub_dir), (''space'', dev),
           (''kind'', JStr ''drive#folder'')]"

text \<open>
  The creation of the sub-directory under the root folder \<open>root\<close>: the id of the new
  folder is read from the answer.
\<close>

definition create_sub_dir :: "env \<Rightarrow> json \<Rightarrow> string \<Rightarrow> json io" where
  "create_sub_dir E root sub_dir =
     bnd (attr device_id) (\<lambda>dev.
     bnd (headers E) (\<lambda>tok.
     bnd (session_request E (PostFiles (folder_body root sub_dir dev) tok)) (\<lambda>response.
     lift (sbind (response_json response) (\<lambda>j. sbind (py_get j ''file'') (\<lambda>f. py_get f ''id''))))))"

text \<open>
  The \<open>try\<close> block of \<open>download_magnetic\<close>. \<open>preprocess_files\<close> is \<open>None\<close> or a
  callable, which returns a list of entries or raises.
\<close>

definition download_magnetic_try ::
  "env \<Rightarrow> string \<Rightarrow> string \<Rightarrow> (TaskFile list \<Rightarrow> exn + TaskFile list) option \<Rightarrow> outcome io" where
  "download_magnetic_try E magnetic_link sub_dir preprocess_files =
     bnd (headers E) (\<lambda>tok.
     bnd (session_request E (PostResourceList magnetic_link tok)) (\<lambda>response.
     if status_code response \<noteq> 200 then ret (PyInt 0)
     else
     bnd (lift (response_json response)) (\<lambda>data.
     bnd (lift (sbind (py_get_default data ''list'' (JObj [])) (\<lambda>l. py_get l ''resources''))) (\<lambda>found.
     if \<not> truthy found then ret (PyInt 0)
     else
     bnd (lift (sbind (py_get data ''list'') (\<lambda>l. py_get l ''resources''))) (\<lambda>root_resources.
     bnd (lift (sbind (py_item0 root_resources) (\<lambda>r0. py_get r0 ''name''))) (\<lambda>task_name.
     bnd (completed_tasks E) (\<lambda>finished.
     bnd (uncompleted_tasks E) (\<lambda>unfinished.
     bnd (lift (name_in task_name (map name (finished @ unfinished)))) (\<lambda>exists.
     if exists then ret (PyInt 2)
     else
     bnd (lift (sbind (py_item0 root_resources) (\<lambda>r0. py_get r0 ''file_count''))) (\<lambda>task_file_count.
     bnd (lift (sbind (py_iter root_resources) (helper E))) (\<lambda>flat.
     bnd (lift (case preprocess_files of None \<Rightarrow> Inr flat | Some f \<Rightarrow> f flat)) (\<lambda>task_files.
     bnd (attr parent_folder_id) (\<lambda>root.
     if sub_dir \<noteq> [] \<and> CHR ''/'' \<in> set sub_dir then ret (PyBool False)
     else
     bnd (if sub_dir \<noteq> [] then create_sub_dir E root sub_dir else ret root) (\<lambda>target_parent_id.
     bnd (attr device_id) (\<lambda>dev.
     bnd (headers E) (\<lambda>tok.
     bnd (session_request E
            (PostTask (task_body E task_name task_files dev magnetic_link task_file_count
                         target_parent_id (map (\<lambda>i. str_int (index i)) task_files)) tok)) (\<lambda>response.
     bnd (lift (sbind (response_json response) (\<lambda>result. py_get result ''HttpStatus''))) (\<lambda>st.
     if py_eq_int st 0 then ret (PyInt 1) else ret (PyInt 0)))))))))))))))))))"

text \<open>\<open>download_magnetic\<close>: whatever the block raises is logged and 0 is returned.\<close>

definition download_magnetic ::
  "env \<Rightarrow> string \<Rightarrow> string \<Rightarrow> (TaskFile list \<Rightarrow> exn + TaskFile list) option \<Rightarrow> client \<Rightarrow> outcome \<times> client" where
  "download_magnetic E magnetic_link sub_dir preprocess_files s =
     (case download_magnetic_try E magnetic_link sub_dir preprocess_files s of
        (Inl e, s') \<Rightarrow> (PyInt 0, s')
      | (Inr r, s') \<Rightarrow> (r, s'))"

section \<open>Controlling a task\<close>

text \<open>
  What \<open>delete_task\<close>, \<open>pause_task\<close> and \<open>start_task\<close> share: the device id is fetched
  when the cached one is false, and the patch request carries the token twice (as the
  \<open>pan_auth\<close> parameter and in the headers) and the phase to set.
\<close>

definition patch_request :: "env \<Rightarrow> string \<Rightarrow> string \<Rightarrow> response io" where
  "patch_request E task_id spec =
     bnd (attr device_id) (\<lambda>dev.
     bnd (if \<not> truthy dev then bnd (get_device_id E) set_device_id else ret ()) (\<lambda>_.
     bnd (\<lambda>s. case get_pan_auth E s of (tok, s') \<Rightarrow> (Inr tok, s')) (\<lambda>pan_auth.
     bnd (attr device_id) (\<lambda>dev.
     bnd (headers E) (\<lambda>tok.
     session_request E
       (PostPatchTask
          (JObj [(''space'', dev), (''type'', JStr ''user#download-url''), (''id'', JStr task_id),
                 (''set_params'', JObj [(''spec'', JStr spec)])])
          pan_auth tok))))))"

definition delete_task_try :: "env \<Rightarrow> string \<Rightarrow> bool io" where
  \<open>delete_task_try E task_id =
     bnd (patch_request E task_id ''{"phase":"delete"}'') (\<lambda>response.
     bnd (if status_code response \<noteq> 200 then lift (raise_for_status response) else ret ()) (\<lambda>_.
     bnd (lift (sbind (response_json response) (\<lambda>result. py_get_default result ''error_code'' (JNum 0)))) (\<lambda>ec.
     ret (py_eq_int ec 0))))\<close>

definition pause_task_try :: "env \<Rightarrow> string \<Rightarrow> bool io" where
  \<open>pause_task_try E task_id =
     bnd (patch_request E task_id ''{"phase":"pause"}'') (\<lambda>response.
     bnd (lift (sbind (response_json response) (\<lambda>result. py_get_default result ''error_code'' (JNum 0)))) (\<lambda>ec.
     ret (py_eq_int ec 0)))\<close>

definition start_task_try :: "env \<Rightarrow> string \<Rightarrow> bool io" where
  \<open>start_task_try E task_id =
     bnd (patch_request E task_id ''{"phase":"running"}'') (\<lambda>response.
     bnd (lift (sbind (response_json response) (\<lambda>result. py_get_default result ''error_code'' (JNum 0)))) (\<lambda>ec.
     ret (py_eq_int ec 0)))\<close>

text \<open>Each method returns \<open>False\<close> when its block raises.\<close>

definition except_False :: "bool io \<Rightarrow> client \<Rightarrow> bool \<times> client" where
  "except_False m s = (case m s of (Inl e, s') \<Rightarrow> (False, s') | (Inr b, s') \<Rightarrow> (b, s'))"

definition delete_task :: "env \<Rightarrow> string \<Rightarrow> client \<Rightarrow> bool \<times> client" where
  "delete_task E task_id = except_False (delete_task_try E task_id)"

definition pause_task :: "env \<Rightarrow> string \<Rightarrow> client \<Rightarrow> bool \<times> client" where
  "pause_task E task_id = except_False (pause_task_try E task_id)"

definition start_task :: "env \<Rightarrow> string \<Rightarrow> client \<Rightarrow> bool \<times> client" where
  "start_task E task_id = except_False (start_task_try E task_id)"

section \<open>The resource tree of the specification\<close>

text \<open>
  The specification describes the listing as a tree: a file with an index (which may be
  absent), a name and a size, or a directory of resources. \<open>flatten\<close> follows its words:
  depth first, a directory's files before those of its later siblings, index 0 where
  none is declared.
\<close>

datatype resource = File "int option" string int | Directory "resource list"

fun flatten :: "resource \<Rightarrow> TaskFile list" where
  "flatten (File i n sz) =
     [\<lparr>index = (case i of None \<Rightarrow> 0 | Some k \<Rightarrow> k), file_name = n, file_size = sz\<rparr>]"
| "flatten (Directory children) = concat (map flatten children)"

fun leaves :: "resource \<Rightarrow> nat" where
  "leaves (File i n sz) = 1"
| "leaves (Directory children) = sum_list (map leaves children)"

text \<open>
  A decoded JSON value represents a resource when it carries that resource in the keys
  that \<open>helper\<close> reads; what else it holds does not matter.
\<close>

fun represents :: "json \<Rightarrow> resource \<Rightarrow> bool" where
  "represents j (File i n sz) =
     ((case py_get j ''is_dir'' of Inr v \<Rightarrow> \<not> truthy v | Inl e \<Rightarrow> False) \<and>
      py_get j ''file_index'' = Inr (case i of None \<Rightarrow> JNull | Some k \<Rightarrow> JNum k) \<and>
      py_get j ''name'' = Inr (JStr n) \<and>
      py_get j ''file_size'' = Inr (JNum sz))"
| "represents j (Directory children) =
     ((case py_get j ''is_dir'' of Inr v \<Rightarrow> truthy v | Inl e \<Rightarrow> False) \<and>
      (case py_get j ''dir'' of
         Inr d \<Rightarrow> (case py_get d ''resources'' of
                     Inr (JArr js) \<Rightarrow> list_all2 represents js children
                   | _ \<Rightarrow> False)
       | Inl e \<Rightarrow> False))"

section \<open>A concrete environment\<close>

text \<open>
  A pydantic that accepts only a value of the field's own type, over a given service and
  clock: the environment of the examples.
\<close>

definition strict_str :: "json \<Rightarrow> string option" where
  "strict_str v = (case v of JStr s \<Rightarrow> Some s | _ \<Rightarrow> None)"

definition strict_int :: "json \<Rightarrow> int option" where
  "strict_int v = (case v of JNum n \<Rightarrow> Some n | _ \<Rightarrow> None)"

definition strict_datetime :: "json \<Rightarrow> datetime option" where
  "strict_datetime v = (case v of JNum n \<Rightarrow> Some (Datetime n) | _ \<Rightarrow> None)"

definition strict_env :: "(request list \<Rightarrow> request \<Rightarrow> exn + response) \<Rightarrow> (nat \<Rightarrow> int) \<Rightarrow> env" where
  "strict_env service clk =
     \<lparr>respond = service, clock = clk, str_field = strict_str, int_field = strict_int,
      datetime_field = strict_datetime, int_of_str = (\<lambda>s. None), container_str = (\<lambda>v. [])\<rparr>"

definition offline :: "request list \<Rightarrow> request \<Rightarrow> exn + response" where
  "offline history rq = Inl RequestException"

definition file_json :: "json \<Rightarrow> string \<Rightarrow> int \<Rightarrow> json" where
  "file_json i n sz = JObj [(''name'', JStr n), (''file_index'', i), (''file_size'', JNum sz)]"

definition dir_json :: "string \<Rightarrow> json list \<Rightarrow> json" where
  "dir_json n children =
     JObj [(''name'', JStr n), (''is_dir'', JBool True), (''dir'', JObj [(''resources'', JArr children)])]"

definition json_response :: "json \<Rightarrow> response" where
  "json_response j = \<lparr>status_code = 200, resp_text = [], json_body = Some j\<rparr>"

definition index_page :: response where
  \<open>index_page =
     \<lparr>status_code = 200,
      resp_text = ''<script>function uiauth(value){ return "tok7" }</script>'',
      json_body = None\<rparr>\<close>

text \<open>
  A service that answers every request: the entry page, a device, the two task listings
  \<open>finished\<close> and \<open>unfinished\<close>, the resource listing \<open>listing\<close>, a new folder, an accepted
  task, and \<open>patched\<close> for a patch request.
\<close>

definition panel :: "json \<Rightarrow> json \<Rightarrow> json \<Rightarrow> response \<Rightarrow> request list \<Rightarrow> request \<Rightarrow> exn + response" where
  "panel listing finished unfinished patched history rq =
     (case rq of
        GetIndex \<Rightarrow> Inr index_page
      | PostDeviceInfo t \<Rightarrow> Inr (json_response (JObj [(''target'', JStr ''dev'')]))
      | GetTasks ph d t \<Rightarrow>
          Inr (json_response
                 (JObj [(''tasks'', (case ph of Complete \<Rightarrow> finished | Uncomplete \<Rightarrow> unfinished))]))
      | PostResourceList m t \<Rightarrow> Inr (json_response listing)
      | PostFiles b t \<Rightarrow> Inr (json_response (JObj [(''file'', JObj [(''id'', JStr ''sub'')])]))
      | PostTask b t \<Rightarrow> Inr (json_response (JObj [(''HttpStatus'', JNum 0)]))
      | PostPatchTask b p t \<Rightarrow> Inr patched)"

definition new_client :: client where
  "new_client =
     \<lparr>device_id = JStr ''dev'', token_str = None, token_time = 0,
      parent_folder_id = JStr ''root'', sent = [], ticks = 0\<rparr>"

definition task_json :: "string \<Rightarrow> json" where
  "task_json n =
     JObj [(''name'', JStr n), (''file_size'', JNum 10), (''updated_time'', JNum 1),
           (''created_time'', JNum 1), (''params'', JObj [(''real_path'', JStr ''/downloads'')])]"

text \<open>The record that the listings build from \<open>task_json n\<close>.\<close>

definition listed_task :: "string \<Rightarrow> TaskInfo" where
  "listed_task n =
     \<lparr>name = n, file_name = n, file_size = 10, updated_time = Datetime 1, progress = 0,
      real_path = ''/downloads'', speed = 0, created_time = Datetime 1, origin = task_json n\<rparr>"

definition movie :: json where
  "movie =
     JObj [(''name'', JStr ''Sample.Movie''), (''file_count'', JNum 2), (''is_dir'', JBool True),
           (''dir'', JObj [(''resources'',
              JArr [file_json (JNum 0) ''a.mkv'' 700, file_json (JNum 1) ''b.txt'' 5])])]"

definition movie_listing :: json where
  "movie_listing = JObj [(''list'', JObj [(''resources'', JArr [movie])])]"

definition demo :: "json \<Rightarrow> json \<Rightarrow> response \<Rightarrow> env" where
  "demo finished unfinished patched =
     strict_env (panel movie_listing finished unfinished patched) (\<lambda>n. 1000 + int n)"

text \<open>The client of the examples after the requests \<open>rs\<close> and \<open>n\<close> clock readings.\<close>

definition logged :: "request list \<Rightarrow> nat \<Rightarrow> client" where
  "logged rs n = new_client\<lparr>token_str := Some ''tok7'', token_time := 1000, sent := rs, ticks := n\<rparr>"

section \<open>Observations on a run\<close>

text \<open>The requests that create something on the service: a folder or a task.\<close>

fun is_creation :: "request \<Rightarrow> bool" where
  "is_creation (PostFiles b t) = True"
| "is_creation (PostTask b t) = True"
| "is_creation _ = False"

text \<open>The body of the task-creation request when it is the last request issued, and its entries.\<close>

definition submitted_task :: "client \<Rightarrow> json option" where
  "submitted_task s = (case rev (sent s) of PostTask body t # earlier \<Rightarrow> Some body | _ \<Rightarrow> None)"

definition submitted_field :: "string \<Rightarrow> client \<Rightarrow> json option" where
  "submitted_field k s = (case submitted_task s of Some (JObj kvs) \<Rightarrow> map_of kvs k | _ \<Rightarrow> None)"

definition submitted_param :: "string \<Rightarrow> client \<Rightarrow> json option" where
  "submitted_param k s = (case submitted_field ''params'' s of Some (JObj kvs) \<Rightarrow> map_of kvs k | _ \<Rightarrow> None)"

text \<open>
  The \<open>error_code\<close> of an answer is 0 or absent: the answer decodes to an object without
  the key, or with a value that equals 0.
\<close>

definition error_code_ok :: "response \<Rightarrow> bool" where
  "error_code_ok r =
     (case json_body r of
        Some (JObj kvs) \<Rightarrow> (case map_of kvs ''error_code'' of None \<Rightarrow> True | Some v \<Rightarrow> py_eq_int v 0)
      | _ \<Rightarrow> False)"

text \<open>What a run leaves unchanged, and what it can return.\<close>

definition silent :: "'a io \<Rightarrow> bool" where
  "silent m = (\<forall>s r s'. m s = (r, s') \<longrightarrow> filter is_creation (sent s') = filter is_creation (sent s))"

definition yields :: "('a \<Rightarrow> bool) \<Rightarrow> 'a io \<Rightarrow> bool" where
  "yields Q m = (\<forall>s x s'. m s = (Inr x, s') \<longrightarrow> Q x)"

section \<open>Evaluating the examples\<close>

lemma findall_index_page: "findall_uiauth (resp_text index_page) = [''tok7'']"
  by (simp add: index_page_def uiauth_open_def uiauth_close_def)

lemma status_index_page: "status_code index_page = 200"
  by (simp add: index_page_def)

lemmas run_simps =
  demo_def strict_env_def panel_def new_client_def json_response_def
  get_pan_auth_def fetch_pan_auth_def session_request_def time_now_def headers_def
  bnd_def ret_def lift_def attr_def throw_def sbind_def response_json_def py_get_def
  list_tasks_def completed_tasks_def uncompleted_tasks_def quote_device_id_def
  mk_TaskInfo_def task_json_def listed_task_def strict_str_def strict_int_def strict_datetime_def
  findall_index_page status_index_page movie_listing_def movie_def file_json_def
  mk_TaskFile_def download_magnetic_def download_magnetic_try_def create_sub_dir_def
  folder_body_def task_body_def str_int_def digits.simps digit_char_def
  submitted_task_def submitted_field_def submitted_param_def offline_def
  filter_file_by_size_def

section \<open>The size filter\<close>

text \<open>
  C2. For every list of entries and every pair of bounds, \<open>filter_file_by_size\<close> returns
  exactly the entries whose size lies between the bounds, both ends included, in the
  order of the input; a bound left out is 524288000 (500 MiB) below and 42949672960
  (40 GiB) above.
\<close>

theorem filter_file_by_size_exact:
  "filter_file_by_size task_files (Some lo) (Some hi) =
     [i \<leftarrow> task_files. lo \<le> file_size i \<and> file_size i \<le> hi] \<and>
   filter_file_by_size task_files None None =
     [i \<leftarrow> task_files. 524288000 \<le> file_size i \<and> file_size i \<le> 42949672960] \<and>
   filter_file_by_size task_files None (Some hi) = filter_file_by_size task_files (Some 524288000) (Some hi) \<and>
   filter_file_by_size task_files (Some lo) None = filter_file_by_size task_files (Some lo) (Some 42949672960) \<and>
   subseq (filter_file_by_size task_files (Some lo) (Some hi)) task_files"
  by (simp add: filter_file_by_size_def)

section \<open>The flattening\<close>

lemma length_flatten: "length (flatten r) = leaves r"
  by (induction r rule: flatten.induct) (auto simp: length_concat comp_def cong: map_cong)

lemma helper_represents:
  assumes "\<And>n. int_field E (JNum n) = Some n" and "\<And>s. str_field E (JStr s) = Some s"
    and "list_all2 represents js rs"
  shows "helper E js = Inr (concat (map flatten rs))"
  using assms
proof (induction E js arbitrary: rs rule: helper.induct)
  case (1 E)
  then show ?case by simp
next
  case (2 E resource resources)
  note lib = "2.prems"(1,2)
  from "2.prems"(3) obtain r rs' where rs: "rs = r # rs'" and r: "represents resource r"
    and rest: "list_all2 represents resources rs'"
    by (auto simp: list_all2_Cons1)
  show ?case
  proof (cases r)
    case (File i n sz)
    with r obtain v where v: "py_get resource ''is_dir'' = Inr v" "\<not> truthy v"
      by (auto split: sum.splits)
    let ?fi = "case i of None \<Rightarrow> JNull | Some k \<Rightarrow> JNum k"
    let ?tf = "\<lparr>index = (case i of None \<Rightarrow> 0 | Some k \<Rightarrow> k), file_name = n, file_size = sz\<rparr>"
    from r File have fi: "py_get resource ''file_index'' = Inr ?fi"
      and sz: "py_get resource ''file_size'' = Inr (JNum sz)"
      and nm: "py_get resource ''name'' = Inr (JStr n)"
      by simp_all
    have mk: "mk_TaskFile E (if \<not> truthy ?fi then JNum 0 else ?fi) (JNum sz) (JStr n) = Inr ?tf"
      by (cases i) (simp_all add: mk_TaskFile_def lib)
    have tail: "helper E resources = Inr (concat (map flatten rs'))"
      using "2.IH"(3) [OF v fi sz nm mk lib rest] .
    show ?thesis
      using v fi sz nm mk tail rs File by (simp add: sbind_def)
  next
    case (Directory children)
    with r obtain v d js where v: "py_get resource ''is_dir'' = Inr v" "truthy v"
      and d: "py_get resource ''dir'' = Inr d" and js: "py_get d ''resources'' = Inr (JArr js)"
      and sub: "list_all2 represents js children"
      by (auto split: sum.splits json.splits)
    have it: "py_iter (JArr js) = Inr js" by simp
    have below: "helper E js = Inr (concat (map flatten children))"
      using "2.IH"(1) [OF v d js it lib sub] .
    have tail: "helper E resources = Inr (concat (map flatten rs'))"
      using "2.IH"(2) [OF v d js it below lib rest] .
    show ?thesis
      using v d js below tail rs Directory by (simp add: sbind_def)
  qed
qed

text \<open>
  C4. \<open>helper\<close> traverses the listing depth first and in pre-order: on a listing that
  represents a tree of resources it returns the entries of \<open>flatten\<close>, one for each file
  with its declared index (0 when absent), name and size, a directory giving the entries
  of its children in its place; their number is the number of files, and the empty
  listing gives the empty list. Pydantic is taken to accept an integer for an integer
  field and a string for a string field as they are.
\<close>

theorem helper_flattens_tree:
  assumes "\<And>n. int_field E (JNum n) = Some n" and "\<And>s. str_field E (JStr s) = Some s"
    and "list_all2 represents js rs"
  shows "helper E js = Inr (concat (map flatten rs)) \<and>
         length (concat (map flatten rs)) = sum_list (map leaves rs) \<and>
         helper E [] = Inr []"
  using helper_represents [OF assms]
  by (simp add: length_concat comp_def length_flatten)

theorem helper_flattens_tree_witness:
  "helper (strict_env offline (\<lambda>n. 0))
     [dir_json ''season'' [file_json (JNum 3) ''a.mkv'' 10, dir_json ''extras'' [], file_json JNull ''b.mkv'' 20],
      file_json (JNum 1) ''c.nfo'' 5] =
   Inr [\<lparr>index = 3, file_name = ''a.mkv'', file_size = 10\<rparr>,
        \<lparr>index = 0, file_name = ''b.mkv'', file_size = 20\<rparr>,
        \<lparr>index = 1, file_name = ''c.nfo'', file_size = 5\<rparr>] \<and>
   list_all2 represents
     [dir_json ''season'' [file_json (JNum 3) ''a.mkv'' 10, dir_json ''extras'' [], file_json JNull ''b.mkv'' 20],
      file_json (JNum 1) ''c.nfo'' 5]
     [Directory [File (Some 3) ''a.mkv'' 10, Directory [], File None ''b.mkv'' 20], File (Some 1) ''c.nfo'' 5]"
proof -
  let ?E = "strict_env offline (\<lambda>n. 0)"
  let ?js = "[dir_json ''season'' [file_json (JNum 3) ''a.mkv'' 10, dir_json ''extras'' [], file_json JNull ''b.mkv'' 20],
      file_json (JNum 1) ''c.nfo'' 5]"
  let ?rs = "[Directory [File (Some 3) ''a.mkv'' 10, Directory [], File None ''b.mkv'' 20], File (Some 1) ''c.nfo'' 5]"
  have i: "\<And>n. int_field ?E (JNum n) = Some n"
    by (simp add: strict_env_def strict_int_def)
  have s: "\<And>s. str_field ?E (JStr s) = Some s"
    by (simp add: strict_env_def strict_str_def)
  have r: "list_all2 represents ?js ?rs"
    by (simp add: dir_json_def file_json_def py_get_def)
  show ?thesis
    using helper_flattens_tree [OF i s r] r by simp
qed

section \<open>The token cache\<close>

text \<open>
  C8. \<open>get_pan_auth\<close> returns the cached token and fetches nothing when the token was
  cached less than 600 seconds before the clock reading of the call. Otherwise it fetches
  the entry page; when the answer has status 200 and the pattern matches, it caches the
  first match with the clock reading taken then and returns it; when the request fails,
  the status is not 200 or the pattern does not match, it returns the empty string and
  leaves the cache as it was. It never raises.
\<close>

theorem get_pan_auth_contract:
  "(token_str s = Some tok \<and> clock E (ticks s) - token_time s < 600 \<longrightarrow>
      get_pan_auth E s = (tok, s\<lparr>ticks := Suc (ticks s)\<rparr>)) \<and>
   ((token_str s = None \<or> 600 \<le> clock E (ticks s) - token_time s) \<and>
    respond E (sent s) GetIndex = Inr resp \<and> status_code resp = 200 \<and>
    findall_uiauth (resp_text resp) = m # ms \<longrightarrow>
      fst (get_pan_auth E s) = m \<and>
      token_str (snd (get_pan_auth E s)) = Some m \<and>
      token_time (snd (get_pan_auth E s)) = clock E (ticks (snd (get_pan_auth E s)) - 1) \<and>
      ticks s < ticks (snd (get_pan_auth E s)) \<and>
      sent (snd (get_pan_auth E s)) = sent s @ [GetIndex]) \<and>
   ((token_str s = None \<or> 600 \<le> clock E (ticks s) - token_time s) \<and>
    (case respond E (sent s) GetIndex of
       Inl e \<Rightarrow> True
     | Inr resp \<Rightarrow> status_code resp \<noteq> 200 \<or> findall_uiauth (resp_text resp) = []) \<longrightarrow>
      fst (get_pan_auth E s) = [] \<and>
      token_str (snd (get_pan_auth E s)) = token_str s \<and>
      token_time (snd (get_pan_auth E s)) = token_time s \<and>
      sent (snd (get_pan_auth E s)) = sent s @ [GetIndex])"
  by (cases "token_str s")
     (auto simp: get_pan_auth_def fetch_pan_auth_def session_request_def time_now_def
           split: sum.splits list.splits prod.splits)

theorem get_pan_auth_contract_witness:
  "get_pan_auth (demo JNull JNull (json_response JNull))
     (new_client\<lparr>token_str := Some ''old'', token_time := 401\<rparr>) =
     (''old'', new_client\<lparr>token_str := Some ''old'', token_time := 401, ticks := 1\<rparr>) \<and>
   fst (get_pan_auth (demo JNull JNull (json_response JNull))
          (new_client\<lparr>token_str := Some ''old'', token_time := 400\<rparr>)) = ''tok7'' \<and>
   sent (snd (get_pan_auth (demo JNull JNull (json_response JNull))
          (new_client\<lparr>token_str := Some ''old'', token_time := 400\<rparr>))) = [GetIndex] \<and>
   token_time (snd (get_pan_auth (demo JNull JNull (json_response JNull))
          (new_client\<lparr>token_str := Some ''old'', token_time := 400\<rparr>))) = 1001 \<and>
   fst (get_pan_auth (strict_env offline (\<lambda>n. 1000 + int n))
          (new_client\<lparr>token_str := Some ''old'', token_time := 400\<rparr>)) = [] \<and>
   sent (snd (get_pan_auth (strict_env offline (\<lambda>n. 1000 + int n))
          (new_client\<lparr>token_str := Some ''old'', token_time := 400\<rparr>))) = [GetIndex]"
proof -
  let ?E = "demo JNull JNull (json_response JNull)"
  let ?off = "strict_env offline (\<lambda>n. 1000 + int n)"
  let ?fresh = "new_client\<lparr>token_str := Some ''old'', token_time := 401\<rparr>"
  let ?stale = "new_client\<lparr>token_str := Some ''old'', token_time := 400\<rparr>"
  have a: "token_str ?fresh = Some ''old'' \<and> clock ?E (ticks ?fresh) - token_time ?fresh < 600"
    by (simp add: run_simps)
  have b: "(token_str ?stale = None \<or> 600 \<le> clock ?E (ticks ?stale) - token_time ?stale) \<and>
    respond ?E (sent ?stale) GetIndex = Inr index_page \<and> status_code index_page = 200 \<and>
    findall_uiauth (resp_text index_page) = ''tok7'' # []"
    by (simp add: run_simps)
  have c: "(token_str ?stale = None \<or> 600 \<le> clock ?off (ticks ?stale) - token_time ?stale) \<and>
    (case respond ?off (sent ?stale) GetIndex of
       Inl e \<Rightarrow> True
     | Inr resp \<Rightarrow> status_code resp \<noteq> 200 \<or> findall_uiauth (resp_text resp) = [])"
    by (simp add: run_simps)
  from a get_pan_auth_contract [of ?fresh "''old''" ?E]
  have 1: "get_pan_auth ?E ?fresh = (''old'', ?fresh\<lparr>ticks := Suc (ticks ?fresh)\<rparr>)"
    by blast
  from b get_pan_auth_contract [of ?stale _ ?E index_page "''tok7''" "[]"]
  have 2: "fst (get_pan_auth ?E ?stale) = ''tok7'' \<and>
      sent (snd (get_pan_auth ?E ?stale)) = sent ?stale @ [GetIndex] \<and>
      token_time (snd (get_pan_auth ?E ?stale)) = clock ?E (ticks (snd (get_pan_auth ?E ?stale)) - 1)"
    by blast
  from c get_pan_auth_contract [of ?stale _ ?off]
  have 3: "fst (get_pan_auth ?off ?stale) = [] \<and>
      sent (snd (get_pan_auth ?off ?stale)) = sent ?stale @ [GetIndex]"
    by blast
  have t: "ticks (snd (get_pan_auth ?E ?stale)) = 2"
    by (simp add: run_simps)
  show ?thesis
    using 1 2 3 t by (simp add: new_client_def demo_def strict_env_def)
qed

section \<open>The task listings\<close>

lemma mk_TaskInfo_names: "mk_TaskInfo E task = Inr t \<Longrightarrow> TaskInfo.file_name t = name t"
  by (auto simp: mk_TaskInfo_def sbind_def split: sum.splits option.splits)

lemma mk_TaskInfos_names:
  "mk_TaskInfos E tasks = Inr ts \<Longrightarrow> t \<in> set ts \<Longrightarrow> TaskInfo.file_name t = name t"
proof (induction tasks arbitrary: ts)
  case Nil
  then show ?case by simp
next
  case (Cons task tasks)
  then show ?case
    by (auto simp: sbind_def split: sum.splits dest: mk_TaskInfo_names)
qed

lemma list_tasks_names:
  "list_tasks E ph s = (Inr ts, s') \<Longrightarrow> t \<in> set ts \<Longrightarrow> TaskInfo.file_name t = name t"
  by (auto simp: list_tasks_def bnd_def attr_def lift_def ret_def
           split: prod.splits sum.splits if_splits dest: mk_TaskInfos_names)

text \<open>
  C10. Every task that \<open>completed_tasks\<close> or \<open>uncompleted_tasks\<close> returns has its
  \<open>file_name\<close> equal to its \<open>name\<close>.
\<close>

theorem listed_tasks_file_name:
  assumes "completed_tasks E s = (Inr ts, s') \<or> uncompleted_tasks E s = (Inr ts, s')"
    and "t \<in> set ts"
  shows "TaskInfo.file_name t = name t"
  using assms list_tasks_names
  unfolding completed_tasks_def uncompleted_tasks_def by blast

theorem listed_tasks_file_name_witness:
  "completed_tasks (demo (JArr [task_json ''A'']) JNull (json_response JNull)) new_client =
     (Inr [listed_task ''A''],
      new_client\<lparr>token_str := Some ''tok7'', token_time := 1000,
        sent := [GetIndex, GetTasks Complete ''dev'' ''tok7''], ticks := 1\<rparr>) \<and>
   TaskInfo.file_name (listed_task ''A'') = name (listed_task ''A'')"
proof -
  let ?E = "demo (JArr [task_json ''A'']) JNull (json_response JNull)"
  let ?s' = "new_client\<lparr>token_str := Some ''tok7'', token_time := 1000,
        sent := [GetIndex, GetTasks Complete ''dev'' ''tok7''], ticks := 1\<rparr>"
  have run: "completed_tasks ?E new_client = (Inr [listed_task ''A''], ?s')"
    by (simp add: run_simps)
  have mem: "listed_task ''A'' \<in> set [listed_task ''A'']" by simp
  from listed_tasks_file_name [OF disjI1 [OF run] mem] run show ?thesis by simp
qed

section \<open>Requests and results of \<open>download_magnetic\<close>\<close>

lemma silent_ret: "silent (ret x)"
  by (simp add: silent_def ret_def)

lemma silent_lift: "silent (lift r)"
  by (simp add: silent_def lift_def)

lemma silent_attr: "silent (attr f)"
  by (simp add: silent_def attr_def)

lemma silent_bnd: "silent m \<Longrightarrow> (\<And>x. silent (f x)) \<Longrightarrow> silent (bnd m f)"
  unfolding silent_def bnd_def
  by (auto split: prod.splits sum.splits)

lemma silent_if: "(c \<Longrightarrow> silent a) \<Longrightarrow> (\<not> c \<Longrightarrow> silent b) \<Longrightarrow> silent (if c then a else b)"
  by simp

lemma silent_session_request: "\<not> is_creation rq \<Longrightarrow> silent (session_request E rq)"
  by (auto simp: silent_def session_request_def)

lemma get_pan_auth_creations:
  "get_pan_auth E s = (tok, s') \<Longrightarrow> filter is_creation (sent s') = filter is_creation (sent s)"
  by (auto simp: get_pan_auth_def fetch_pan_auth_def session_request_def time_now_def
           split: option.splits sum.splits list.splits prod.splits if_splits)

lemma silent_headers: "silent (headers E)"
  by (auto simp: silent_def headers_def dest: get_pan_auth_creations split: prod.splits)

lemma silent_list_tasks: "silent (list_tasks E ph)"
  unfolding list_tasks_def
  by (intro silent_bnd silent_attr silent_lift silent_headers silent_session_request silent_if silent_ret) simp

lemma yields_ret: "Q x \<Longrightarrow> yields Q (ret x)"
  by (simp add: yields_def ret_def)

lemma yields_bnd: "(\<And>x. yields Q (f x)) \<Longrightarrow> yields Q (bnd m f)"
  unfolding yields_def bnd_def
  by (auto split: prod.splits sum.splits)

lemma yields_if: "(c \<Longrightarrow> yields Q a) \<Longrightarrow> (\<not> c \<Longrightarrow> yields Q b) \<Longrightarrow> yields Q (if c then a else b)"
  by simp

lemma yields_download_magnetic_try:
  "yields (\<lambda>r. int_value r \<in> {0, 1, 2}) (download_magnetic_try E magnetic_link sub_dir preprocess_files)"
  unfolding download_magnetic_try_def
  by (intro yields_bnd yields_if yields_ret) simp_all

text \<open>
  C7. \<open>download_magnetic\<close> does not raise: whatever its block raises becomes the result 0,
  and the object returned has the value 0 (failed), 1 (created) or 2 (already exists).
\<close>

theorem download_magnetic_tri_state:
  "int_value (fst (download_magnetic E magnetic_link sub_dir preprocess_files s)) \<in> {0, 1, 2} \<and>
   (\<forall>e s'. download_magnetic_try E magnetic_link sub_dir preprocess_files s = (Inl e, s') \<longrightarrow>
      download_magnetic E magnetic_link sub_dir preprocess_files s = (PyInt 0, s'))"
  using yields_download_magnetic_try [of E magnetic_link sub_dir preprocess_files]
  by (auto simp: download_magnetic_def yields_def split: prod.splits sum.splits)

theorem download_magnetic_tri_state_witness:
  "download_magnetic (strict_env offline (\<lambda>n. 0)) ''magnet:x'' [] None new_client =
     (PyInt 0, new_client\<lparr>sent := [GetIndex, PostResourceList ''magnet:x'' []]\<rparr>) \<and>
   int_value (fst (download_magnetic (strict_env offline (\<lambda>n. 0)) ''magnet:x'' [] None new_client))
     \<in> {0, 1, 2}"
proof -
  let ?E = "strict_env offline (\<lambda>n. 0)"
  let ?s' = "new_client\<lparr>sent := [GetIndex, PostResourceList ''magnet:x'' []]\<rparr>"
  have raised: "download_magnetic_try ?E ''magnet:x'' [] None new_client = (Inl RequestException, ?s')"
    by (simp add: run_simps)
  from download_magnetic_tri_state [of ?E "''magnet:x''" "[]" None new_client] raised
  show ?thesis by blast
qed

lemma silent_slash:
  assumes "sub_dir \<noteq> []" and "CHR ''/'' \<in> set sub_dir"
  shows "silent (download_magnetic_try E magnetic_link sub_dir preprocess_files)"
  unfolding download_magnetic_try_def completed_tasks_def uncompleted_tasks_def
  using assms
  by (intro silent_bnd silent_if silent_ret silent_lift silent_attr silent_headers
        silent_list_tasks silent_session_request) simp_all

lemma yields_slash:
  assumes "sub_dir \<noteq> []" and "CHR ''/'' \<in> set sub_dir"
  shows "yields (\<lambda>r. r = PyInt 0 \<or> r = PyInt 2 \<or> r = PyBool False)
           (download_magnetic_try E magnetic_link sub_dir preprocess_files)"
  unfolding download_magnetic_try_def
  using assms
  by (intro yields_bnd yields_if yields_ret) simp_all

text \<open>
  C6, as amended. When \<open>sub_dir\<close> is not empty and contains \<open>/\<close>, \<open>download_magnetic\<close>
  issues no folder-creation request and no task-creation request, and returns a failure
  (0 or \<open>False\<close>) or 2 when the task exists already, never 1. The requests made before the
  sub-directory is looked at (the resource listing, the task listings) are issued all the same.
\<close>

theorem download_magnetic_slash:
  assumes "sub_dir \<noteq> []" and "CHR ''/'' \<in> set sub_dir"
    and "download_magnetic E magnetic_link sub_dir preprocess_files s = (r, s')"
  shows "filter is_creation (sent s') = filter is_creation (sent s) \<and>
         (r = PyInt 0 \<or> r = PyInt 2 \<or> r = PyBool False)"
proof -
  let ?m = "download_magnetic_try E magnetic_link sub_dir preprocess_files"
  obtain res s1 where run: "?m s = (res, s1)"
    by (cases "?m s")
  from run assms(3) have s1: "s1 = s'"
    by (auto simp: download_magnetic_def split: sum.splits)
  have frame: "filter is_creation (sent s1) = filter is_creation (sent s)"
    using silent_slash [OF assms(1,2), of E magnetic_link preprocess_files] run
    unfolding silent_def by blast
  have "r = PyInt 0 \<or> r = PyInt 2 \<or> r = PyBool False"
  proof (cases res)
    case (Inl e)
    with run assms(3) show ?thesis
      by (simp add: download_magnetic_def)
  next
    case (Inr x)
    with run assms(3) have "r = x"
      by (simp add: download_magnetic_def)
    moreover have "x = PyInt 0 \<or> x = PyInt 2 \<or> x = PyBool False"
      using yields_slash [OF assms(1,2), of E magnetic_link preprocess_files] run Inr
      unfolding yields_def by blast
    ultimately show ?thesis by simp
  qed
  with frame s1 show ?thesis by simp
qed

theorem download_magnetic_slash_witness:
  "filter is_creation
     (sent (new_client\<lparr>token_str := Some ''tok7'', token_time := 1000,
        sent := [GetIndex, PostResourceList ''magnet:x'' ''tok7'', GetTasks Complete ''dev'' ''tok7'',
                 GetTasks Uncomplete ''dev'' ''tok7''],
        ticks := 3\<rparr>)) = filter is_creation (sent new_client) \<and>
   download_magnetic (demo JNull JNull (json_response JNull)) ''magnet:x'' ''a/b'' None new_client =
     (PyBool False, new_client\<lparr>token_str := Some ''tok7'', token_time := 1000,
        sent := [GetIndex, PostResourceList ''magnet:x'' ''tok7'', GetTasks Complete ''dev'' ''tok7'',
                 GetTasks Uncomplete ''dev'' ''tok7''],
        ticks := 3\<rparr>)"
proof -
  let ?E = "demo JNull JNull (json_response JNull)"
  let ?s' = "new_client\<lparr>token_str := Some ''tok7'', token_time := 1000,
        sent := [GetIndex, PostResourceList ''magnet:x'' ''tok7'', GetTasks Complete ''dev'' ''tok7'',
                 GetTasks Uncomplete ''dev'' ''tok7''],
        ticks := 3\<rparr>"
  have nonempty: "''a/b'' \<noteq> []" by simp
  have slash: "CHR ''/'' \<in> set ''a/b''" by simp
  have run: "download_magnetic ?E ''magnet:x'' ''a/b'' None new_client = (PyBool False, ?s')"
    by (simp add: run_simps)
  from download_magnetic_slash [OF nonempty slash run] run show ?thesis by simp
qed

theorem download_magnetic_slash_counterexample:
  "download_magnetic (demo JNull (JArr [task_json ''Sample.Movie'']) (json_response JNull))
     ''magnet:x'' ''a/b'' None new_client =
   (PyInt 2, new_client\<lparr>token_str := Some ''tok7'', token_time := 1000,
      sent := [GetIndex, PostResourceList ''magnet:x'' ''tok7'', GetTasks Complete ''dev'' ''tok7'',
               GetTasks Uncomplete ''dev'' ''tok7''],
      ticks := 3\<rparr>) \<and>
   download_magnetic (demo JNull JNull (json_response JNull)) ''magnet:x'' ''a/b'' None new_client =
   (PyBool False, new_client\<lparr>token_str := Some ''tok7'', token_time := 1000,
      sent := [GetIndex, PostResourceList ''magnet:x'' ''tok7'', GetTasks Complete ''dev'' ''tok7'',
               GetTasks Uncomplete ''dev'' ''tok7''],
      ticks := 3\<rparr>)"
  by (simp add: run_simps)

section \<open>Runs of \<open>download_magnetic\<close> step by step\<close>

lemma headers_step: "get_pan_auth E s = (tok, s') \<Longrightarrow> headers E s = (Inr tok, s')"
  by (simp add: headers_def)

lemma py_item0_truthy: "py_item0 v = Inr x \<Longrightarrow> truthy v"
  by (cases v rule: py_item0.cases) simp_all

lemma py_get_default_present:
  "py_get d k = Inr l \<Longrightarrow> py_get l k' = Inr x \<Longrightarrow> py_get_default d k dflt = Inr l"
  by (cases d; cases l) (auto simp: py_get_def split: option.splits)

lemma download_magnetic_reaches_check:
  assumes "get_pan_auth E s = (tok, s1)"
    and "session_request E (PostResourceList magnetic_link tok) s1 = (Inr response, s2)"
    and "status_code response = 200"
    and "json_body response = Some data"
    and "py_get data ''list'' = Inr l"
    and "py_get l ''resources'' = Inr root_resources"
    and "py_item0 root_resources = Inr r0"
    and "py_get r0 ''name'' = Inr task_name"
    and "completed_tasks E s2 = (Inr finished, s3)"
    and "uncompleted_tasks E s3 = (Inr unfinished, s4)"
  shows "download_magnetic_try E magnetic_link sub_dir preprocess_files s =
     bnd (lift (name_in task_name (map name (finished @ unfinished)))) (\<lambda>exists.
     if exists then ret (PyInt 2)
     else
     bnd (lift (sbind (py_item0 root_resources) (\<lambda>r0. py_get r0 ''file_count''))) (\<lambda>task_file_count.
     bnd (lift (sbind (py_iter root_resources) (helper E))) (\<lambda>flat.
     bnd (lift (case preprocess_files of None \<Rightarrow> Inr flat | Some f \<Rightarrow> f flat)) (\<lambda>task_files.
     bnd (attr parent_folder_id) (\<lambda>root.
     if sub_dir \<noteq> [] \<and> CHR ''/'' \<in> set sub_dir then ret (PyBool False)
     else
     bnd (if sub_dir \<noteq> [] then create_sub_dir E root sub_dir else ret root) (\<lambda>target_parent_id.
     bnd (attr device_id) (\<lambda>dev.
     bnd (headers E) (\<lambda>tok.
     bnd (session_request E
            (PostTask (task_body E task_name task_files dev magnetic_link task_file_count
                         target_parent_id (map (\<lambda>i. str_int (index i)) task_files)) tok)) (\<lambda>response.
     bnd (lift (sbind (response_json response) (\<lambda>result. py_get result ''HttpStatus''))) (\<lambda>st.
     if py_eq_int st 0 then ret (PyInt 1) else ret (PyInt 0))))))))))) s4"
  unfolding download_magnetic_try_def
  using assms py_item0_truthy [OF assms(7)] py_get_default_present [OF assms(5,6)]
    headers_step [OF assms(1)]
  by (simp add: bnd_def lift_def ret_def sbind_def response_json_def)

text \<open>
  C1. When the resource listing is answered, its first resource has the name \<open>task_name\<close>,
  both task listings return, and \<open>task_name\<close> is the name of a listed task, then
  \<open>download_magnetic\<close> returns 2 right after the listings, and no folder-creation or
  task-creation request has been issued.
\<close>

theorem download_magnetic_already_exists:
  assumes "get_pan_auth E s = (tok, s1)"
    and "session_request E (PostResourceList magnetic_link tok) s1 = (Inr response, s2)"
    and "status_code response = 200"
    and "json_body response = Some data"
    and "py_get data ''list'' = Inr l"
    and "py_get l ''resources'' = Inr root_resources"
    and "py_item0 root_resources = Inr r0"
    and "py_get r0 ''name'' = Inr (JStr task_name)"
    and "completed_tasks E s2 = (Inr finished, s3)"
    and "uncompleted_tasks E s3 = (Inr unfinished, s4)"
    and "task_name \<in> name ` set finished \<union> name ` set unfinished"
  shows "download_magnetic E magnetic_link sub_dir preprocess_files s = (PyInt 2, s4) \<and>
         filter is_creation (sent s4) = filter is_creation (sent s)"
proof -
  have run: "download_magnetic_try E magnetic_link sub_dir preprocess_files s = (Inr (PyInt 2), s4)"
    using assms(11)
    by (simp add: download_magnetic_reaches_check [OF assms(1-10)] bnd_def lift_def ret_def)
  have "filter is_creation (sent s1) = filter is_creation (sent s)"
    using get_pan_auth_creations [OF assms(1)] .
  moreover have "filter is_creation (sent s2) = filter is_creation (sent s1)"
    using assms(2) by (auto simp: session_request_def)
  moreover have "filter is_creation (sent s3) = filter is_creation (sent s2)"
    using silent_list_tasks [of E Complete] assms(9)
    unfolding silent_def completed_tasks_def by blast
  moreover have "filter is_creation (sent s4) = filter is_creation (sent s3)"
    using silent_list_tasks [of E Uncomplete] assms(10)
    unfolding silent_def uncompleted_tasks_def by blast
  ultimately show ?thesis
    using run by (simp add: download_magnetic_def)
qed

theorem download_magnetic_already_exists_witness:
  "download_magnetic (demo (JArr [task_json ''A'']) (JArr [task_json ''Sample.Movie'']) (json_response JNull))
     ''magnet:x'' ''season1'' None new_client =
     (PyInt 2,
      logged [GetIndex, PostResourceList ''magnet:x'' ''tok7'', GetTasks Complete ''dev'' ''tok7'',
              GetTasks Uncomplete ''dev'' ''tok7''] 3) \<and>
   filter is_creation
     (sent (logged [GetIndex, PostResourceList ''magnet:x'' ''tok7'', GetTasks Complete ''dev'' ''tok7'',
              GetTasks Uncomplete ''dev'' ''tok7''] 3)) = filter is_creation (sent new_client)"
proof -
  let ?E = "demo (JArr [task_json ''A'']) (JArr [task_json ''Sample.Movie'']) (json_response JNull)"
  let ?rl = "PostResourceList ''magnet:x'' ''tok7''"
  have 1: "get_pan_auth ?E new_client = (''tok7'', logged [GetIndex] 1)"
    by (simp add: run_simps logged_def)
  have 2: "session_request ?E ?rl (logged [GetIndex] 1) =
             (Inr (json_response movie_listing), logged [GetIndex, ?rl] 1)"
    by (simp add: run_simps logged_def)
  have 3: "status_code (json_response movie_listing) = 200"
    by (simp add: json_response_def)
  have 4: "json_body (json_response movie_listing) = Some movie_listing"
    by (simp add: json_response_def)
  have 5: "py_get movie_listing ''list'' = Inr (JObj [(''resources'', JArr [movie])])"
    by (simp add: movie_listing_def py_get_def)
  have 6: "py_get (JObj [(''resources'', JArr [movie])]) ''resources'' = Inr (JArr [movie])"
    by (simp add: py_get_def)
  have 7: "py_item0 (JArr [movie]) = Inr movie"
    by simp
  have 8: "py_get movie ''name'' = Inr (JStr ''Sample.Movie'')"
    by (simp add: movie_def py_get_def)
  have 9: "completed_tasks ?E (logged [GetIndex, ?rl] 1) =
             (Inr [listed_task ''A''], logged [GetIndex, ?rl, GetTasks Complete ''dev'' ''tok7''] 2)"
    by (simp add: run_simps logged_def)
  have 10: "uncompleted_tasks ?E (logged [GetIndex, ?rl, GetTasks Complete ''dev'' ''tok7''] 2) =
             (Inr [listed_task ''Sample.Movie''],
              logged [GetIndex, ?rl, GetTasks Complete ''dev'' ''tok7'', GetTasks Uncomplete ''dev'' ''tok7''] 3)"
    by (simp add: run_simps logged_def)
  have 11: "''Sample.Movie'' \<in> name ` set [listed_task ''A''] \<union> name ` set [listed_task ''Sample.Movie'']"
    by (simp add: listed_task_def)
  show ?thesis
    using download_magnetic_already_exists [OF 1 2 3 4 5 6 7 8 9 10 11] .
qed

lemma download_magnetic_submits:
  assumes "get_pan_auth E s = (tok, s1)"
    and "session_request E (PostResourceList magnetic_link tok) s1 = (Inr response, s2)"
    and "status_code response = 200"
    and "json_body response = Some data"
    and "py_get data ''list'' = Inr l"
    and "py_get l ''resources'' = Inr root_resources"
    and "py_item0 root_resources = Inr r0"
    and "py_get r0 ''name'' = Inr task_name"
    and "completed_tasks E s2 = (Inr finished, s3)"
    and "uncompleted_tasks E s3 = (Inr unfinished, s4)"
    and "name_in task_name (map name (finished @ unfinished)) = Inr False"
    and "py_get r0 ''file_count'' = Inr task_file_count"
    and "py_iter root_resources = Inr listed"
    and "helper E listed = Inr flat"
    and "(case preprocess_files of None \<Rightarrow> Inr flat | Some f \<Rightarrow> f flat) = Inr task_files"
    and "CHR ''/'' \<notin> set sub_dir"
    and "(if sub_dir \<noteq> [] then create_sub_dir E (parent_folder_id s4) sub_dir
          else ret (parent_folder_id s4)) s4 = (Inr target_parent_id, s5)"
    and "get_pan_auth E s5 = (tok', s6)"
  shows "sent (snd (download_magnetic E magnetic_link sub_dir preprocess_files s)) =
         sent s6 @ [PostTask (task_body E task_name task_files (device_id s5) magnetic_link
                      task_file_count target_parent_id (map (\<lambda>i. str_int (index i)) task_files)) tok']"
  using assms(7,11-18) headers_step [OF assms(18)]
  by (simp add: download_magnetic_def download_magnetic_reaches_check [OF assms(1-10)]
        bnd_def lift_def ret_def attr_def sbind_def session_request_def
      split: sum.splits)

text \<open>
  C5. When a run reaches the task-creation request, the \<open>file_size\<close> of its body is the
  decimal rendering of the sum of the sizes of the entries that the filter returned, and
  \<open>total_file_count\<close> in its \<open>params\<close> is the \<open>file_count\<close> that the first resource
  declares, rendered with \<open>str\<close>, whatever the filter and the tree.
\<close>

theorem download_magnetic_payload_sizes:
  assumes "get_pan_auth E s = (tok, s1)"
    and "session_request E (PostResourceList magnetic_link tok) s1 = (Inr response, s2)"
    and "status_code response = 200"
    and "json_body response = Some data"
    and "py_get data ''list'' = Inr l"
    and "py_get l ''resources'' = Inr root_resources"
    and "py_item0 root_resources = Inr r0"
    and "py_get r0 ''name'' = Inr task_name"
    and "completed_tasks E s2 = (Inr finished, s3)"
    and "uncompleted_tasks E s3 = (Inr unfinished, s4)"
    and "name_in task_name (map name (finished @ unfinished)) = Inr False"
    and "py_get r0 ''file_count'' = Inr task_file_count"
    and "py_iter root_resources = Inr listed"
    and "helper E listed = Inr flat"
    and "(case preprocess_files of None \<Rightarrow> Inr flat | Some f \<Rightarrow> f flat) = Inr task_files"
    and "CHR ''/'' \<notin> set sub_dir"
    and "(if sub_dir \<noteq> [] then create_sub_dir E (parent_folder_id s4) sub_dir
          else ret (parent_folder_id s4)) s4 = (Inr target_parent_id, s5)"
    and "get_pan_auth E s5 = (tok', s6)"
  shows "submitted_field ''file_size'' (snd (download_magnetic E magnetic_link sub_dir preprocess_files s)) =
           Some (JStr (str_int (sum_list (map file_size task_files)))) \<and>
         submitted_param ''total_file_count'' (snd (download_magnetic E magnetic_link sub_dir preprocess_files s)) =
           Some (JStr (py_str E task_file_count))"
  by (simp add: submitted_field_def submitted_param_def submitted_task_def task_body_def
        download_magnetic_submits [OF assms])

theorem download_magnetic_payload_sizes_witness:
  "submitted_field ''file_size''
     (snd (download_magnetic (demo (JArr [task_json ''A'']) JNull (json_response JNull)) ''magnet:x'' ''season1''
             (Some (\<lambda>task_files. Inr (filter_file_by_size task_files (Some 100) (Some 1000))))
             new_client)) = Some (JStr ''700'') \<and>
   submitted_param ''total_file_count''
     (snd (download_magnetic (demo (JArr [task_json ''A'']) JNull (json_response JNull)) ''magnet:x'' ''season1''
             (Some (\<lambda>task_files. Inr (filter_file_by_size task_files (Some 100) (Some 1000))))
             new_client)) = Some (JStr ''2'')"
proof -
  let ?E = "demo (JArr [task_json ''A'']) JNull (json_response JNull)"
  let ?rl = "PostResourceList ''magnet:x'' ''tok7''"
  let ?pf = "PostFiles (folder_body (JStr ''root'') ''season1'' (JStr ''dev'')) ''tok7''"
  let ?f = "Some (\<lambda>task_files. Inr (filter_file_by_size task_files (Some 100) (Some 1000)))"
  let ?a = "\<lparr>index = 0, file_name = ''a.mkv'', file_size = 700\<rparr>"
  let ?b = "\<lparr>index = 1, file_name = ''b.txt'', file_size = 5\<rparr>"
  let ?s4 = "logged [GetIndex, ?rl, GetTasks Complete ''dev'' ''tok7'', GetTasks Uncomplete ''dev'' ''tok7''] 3"
  let ?s5 = "logged [GetIndex, ?rl, GetTasks Complete ''dev'' ''tok7'', GetTasks Uncomplete ''dev'' ''tok7'', ?pf] 4"
  let ?s6 = "logged [GetIndex, ?rl, GetTasks Complete ''dev'' ''tok7'', GetTasks Uncomplete ''dev'' ''tok7'', ?pf] 5"
  have 1: "get_pan_auth ?E new_client = (''tok7'', logged [GetIndex] 1)"
    by (simp add: run_simps logged_def)
  have 2: "session_request ?E ?rl (logged [GetIndex] 1) =
             (Inr (json_response movie_listing), logged [GetIndex, ?rl] 1)"
    by (simp add: run_simps logged_def)
  have 3: "status_code (json_response movie_listing) = 200"
    by (simp add: json_response_def)
  have 4: "json_body (json_response movie_listing) = Some movie_listing"
    by (simp add: json_response_def)
  have 5: "py_get movie_listing ''list'' = Inr (JObj [(''resources'', JArr [movie])])"
    by (simp add: movie_listing_def py_get_def)
  have 6: "py_get (JObj [(''resources'', JArr [movie])]) ''resources'' = Inr (JArr [movie])"
    by (simp add: py_get_def)
  have 7: "py_item0 (JArr [movie]) = Inr movie"
    by simp
  have 8: "py_get movie ''name'' = Inr (JStr ''Sample.Movie'')"
    by (simp add: movie_def py_get_def)
  have 9: "completed_tasks ?E (logged [GetIndex, ?rl] 1) =
             (Inr [listed_task ''A''], logged [GetIndex, ?rl, GetTasks Complete ''dev'' ''tok7''] 2)"
    by (simp add: run_simps logged_def)
  have 10: "uncompleted_tasks ?E (logged [GetIndex, ?rl, GetTasks Complete ''dev'' ''tok7''] 2) = (Inr [], ?s4)"
    by (simp add: run_simps logged_def)
  have 11: "name_in (JStr ''Sample.Movie'') (map name ([listed_task ''A''] @ [])) = Inr False"
    by (simp add: listed_task_def)
  have 12: "py_get movie ''file_count'' = Inr (JNum 2)"
    by (simp add: movie_def py_get_def)
  have 13: "py_iter (JArr [movie]) = Inr [movie]"
    by simp
  have 14: "helper ?E [movie] = Inr [?a, ?b]"
    by (simp add: run_simps)
  have 15: "(case ?f of None \<Rightarrow> Inr [?a, ?b] | Some f \<Rightarrow> f [?a, ?b]) = Inr [?a]"
    by (simp add: filter_file_by_size_def)
  have 16: "CHR ''/'' \<notin> set ''season1''"
    by simp
  have 17: "(if ''season1'' \<noteq> [] then create_sub_dir ?E (parent_folder_id ?s4) ''season1''
             else ret (parent_folder_id ?s4)) ?s4 = (Inr (JStr ''sub''), ?s5)"
    by (simp add: run_simps logged_def)
  have 18: "get_pan_auth ?E ?s5 = (''tok7'', ?s6)"
    by (simp add: run_simps logged_def)
  show ?thesis
    using download_magnetic_payload_sizes [OF 1 2 3 4 5 6 7 8 9 10 11 12 13 14 15 16 17 18]
    by (simp add: str_int_def digits.simps digit_char_def)
qed

text \<open>
  C3, as amended. When a run reaches the task-creation request, \<open>sub_file_index\<close> in its
  \<open>params\<close> is the comma-separated list of the indices of the entries that the filter
  returned, in the order in which the filter returned them; without a filter these are
  the flattened entries in the order of discovery.
\<close>

theorem download_magnetic_sub_file_index:
  assumes "get_pan_auth E s = (tok, s1)"
    and "session_request E (PostResourceList magnetic_link tok) s1 = (Inr response, s2)"
    and "status_code response = 200"
    and "json_body response = Some data"
    and "py_get data ''list'' = Inr l"
    and "py_get l ''resources'' = Inr root_resources"
    and "py_item0 root_resources = Inr r0"
    and "py_get r0 ''name'' = Inr task_name"
    and "completed_tasks E s2 = (Inr finished, s3)"
    and "uncompleted_tasks E s3 = (Inr unfinished, s4)"
    and "name_in task_name (map name (finished @ unfinished)) = Inr False"
    and "py_get r0 ''file_count'' = Inr task_file_count"
    and "py_iter root_resources = Inr listed"
    and "helper E listed = Inr flat"
    and "(case preprocess_files of None \<Rightarrow> Inr flat | Some f \<Rightarrow> f flat) = Inr task_files"
    and "CHR ''/'' \<notin> set sub_dir"
    and "(if sub_dir \<noteq> [] then create_sub_dir E (parent_folder_id s4) sub_dir
          else ret (parent_folder_id s4)) s4 = (Inr target_parent_id, s5)"
    and "get_pan_auth E s5 = (tok', s6)"
  shows "submitted_param ''sub_file_index'' (snd (download_magnetic E magnetic_link sub_dir preprocess_files s)) =
           Some (JStr (join '','' (map (\<lambda>i. str_int (index i)) task_files))) \<and>
         (preprocess_files = None \<longrightarrow> task_files = flat)"
  using assms(15)
  by (auto simp: submitted_field_def submitted_param_def submitted_task_def task_body_def
        download_magnetic_submits [OF assms])

theorem download_magnetic_sub_file_index_witness:
  "submitted_param ''sub_file_index''
     (snd (download_magnetic (demo (JArr [task_json ''A'']) JNull (json_response JNull)) ''magnet:x'' []
             None new_client)) = Some (JStr ''0,1'')"
proof -
  let ?E = "demo (JArr [task_json ''A'']) JNull (json_response JNull)"
  let ?rl = "PostResourceList ''magnet:x'' ''tok7''"
  let ?a = "\<lparr>index = 0, file_name = ''a.mkv'', file_size = 700\<rparr>"
  let ?b = "\<lparr>index = 1, file_name = ''b.txt'', file_size = 5\<rparr>"
  let ?s4 = "logged [GetIndex, ?rl, GetTasks Complete ''dev'' ''tok7'', GetTasks Uncomplete ''dev'' ''tok7''] 3"
  let ?s6 = "logged [GetIndex, ?rl, GetTasks Complete ''dev'' ''tok7'', GetTasks Uncomplete ''dev'' ''tok7''] 4"
  have 1: "get_pan_auth ?E new_client = (''tok7'', logged [GetIndex] 1)"
    by (simp add: run_simps logged_def)
  have 2: "session_request ?E ?rl (logged [GetIndex] 1) =
             (Inr (json_response movie_listing), logged [GetIndex, ?rl] 1)"
    by (simp add: run_simps logged_def)
  have 3: "status_code (json_response movie_listing) = 200"
    by (simp add: json_response_def)
  have 4: "json_body (json_response movie_listing) = Some movie_listing"
    by (simp add: json_response_def)
  have 5: "py_get movie_listing ''list'' = Inr (JObj [(''resources'', JArr [movie])])"
    by (simp add: movie_listing_def py_get_def)
  have 6: "py_get (JObj [(''resources'', JArr [movie])]) ''resources'' = Inr (JArr [movie])"
    by (simp add: py_get_def)
  have 7: "py_item0 (JArr [movie]) = Inr movie"
    by simp
  have 8: "py_get movie ''name'' = Inr (JStr ''Sample.Movie'')"
    by (simp add: movie_def py_get_def)
  have 9: "completed_tasks ?E (logged [GetIndex, ?rl] 1) =
             (Inr [listed_task ''A''], logged [GetIndex, ?rl, GetTasks Complete ''dev'' ''tok7''] 2)"
    by (simp add: run_simps logged_def)
  have 10: "uncompleted_tasks ?E (logged [GetIndex, ?rl, GetTasks Complete ''dev'' ''tok7''] 2) = (Inr [], ?s4)"
    by (simp add: run_simps logged_def)
  have 11: "name_in (JStr ''Sample.Movie'') (map name ([listed_task ''A''] @ [])) = Inr False"
    by (simp add: listed_task_def)
  have 12: "py_get movie ''file_count'' = Inr (JNum 2)"
    by (simp add: movie_def py_get_def)
  have 13: "py_iter (JArr [movie]) = Inr [movie]"
    by simp
  have 14: "helper ?E [movie] = Inr [?a, ?b]"
    by (simp add: run_simps)
  have 15: "(case None of None \<Rightarrow> Inr [?a, ?b] | Some f \<Rightarrow> f [?a, ?b]) = Inr [?a, ?b]"
    by simp
  have 16: "CHR ''/'' \<notin> set []"
    by simp
  have 17: "(if [] \<noteq> [] then create_sub_dir ?E (parent_folder_id ?s4) []
             else ret (parent_folder_id ?s4)) ?s4 = (Inr (JStr ''root''), ?s4)"
    by (simp add: run_simps logged_def)
  have 18: "get_pan_auth ?E ?s4 = (''tok7'', ?s6)"
    by (simp add: run_simps logged_def)
  show ?thesis
    using download_magnetic_sub_file_index [OF 1 2 3 4 5 6 7 8 9 10 11 12 13 14 15 16 17 18]
    by (simp add: str_int_def digits.simps digit_char_def)
qed

theorem download_magnetic_sub_file_index_counterexample:
  "helper (demo JNull JNull (json_response JNull)) [movie] =
     Inr [\<lparr>index = 0, file_name = ''a.mkv'', file_size = 700\<rparr>,
          \<lparr>index = 1, file_name = ''b.txt'', file_size = 5\<rparr>] \<and>
   submitted_param ''sub_file_index''
     (snd (download_magnetic (demo JNull JNull (json_response JNull)) ''magnet:x'' []
             (Some (\<lambda>task_files. Inr (rev task_files))) new_client)) =
     Some (JStr ''1,0'') \<and>
   join '','' (map (\<lambda>i. str_int (index i))
     [i \<leftarrow> [\<lparr>index = 0, file_name = ''a.mkv'', file_size = 700\<rparr>,
            \<lparr>index = 1, file_name = ''b.txt'', file_size = 5\<rparr>].
      i \<in> set (rev [\<lparr>index = 0, file_name = ''a.mkv'', file_size = 700\<rparr>,
                     \<lparr>index = 1, file_name = ''b.txt'', file_size = 5\<rparr>])]) = ''0,1''"
  by (simp add: run_simps)

section \<open>Pausing, starting and deleting a task\<close>

lemma error_code_read:
  "(case sbind (response_json response) (\<lambda>result. py_get_default result ''error_code'' (JNum 0)) of
      Inl e \<Rightarrow> False | Inr ec \<Rightarrow> py_eq_int ec 0) = error_code_ok response"
  by (cases "json_body response")
     (auto simp: sbind_def response_json_def error_code_ok_def
           split: json.splits option.splits sum.splits)

lemma error_code_raised:
  "sbind (response_json response) (\<lambda>result. py_get_default result ''error_code'' (JNum 0)) = Inl e
   \<Longrightarrow> error_code_ok response = False"
  using error_code_read [of response] by simp

lemma error_code_returned:
  "sbind (response_json response) (\<lambda>result. py_get_default result ''error_code'' (JNum 0)) = Inr ec
   \<Longrightarrow> error_code_ok response = py_eq_int ec 0"
  using error_code_read [of response] by simp

lemma pause_task_result:
  \<open>pause_task E task_id s =
     (case patch_request E task_id ''{"phase":"pause"}'' s of
        (Inl e, s') \<Rightarrow> (False, s')
      | (Inr response, s') \<Rightarrow> (error_code_ok response, s'))\<close>
  by (auto simp: pause_task_def pause_task_try_def except_False_def bnd_def lift_def ret_def
        error_code_raised error_code_returned
      split: prod.splits sum.splits)

lemma start_task_result:
  \<open>start_task E task_id s =
     (case patch_request E task_id ''{"phase":"running"}'' s of
        (Inl e, s') \<Rightarrow> (False, s')
      | (Inr response, s') \<Rightarrow> (error_code_ok response, s'))\<close>
  by (auto simp: start_task_def start_task_try_def except_False_def bnd_def lift_def ret_def
        error_code_raised error_code_returned
      split: prod.splits sum.splits)

lemma delete_task_result:
  \<open>delete_task E task_id s =
     (case patch_request E task_id ''{"phase":"delete"}'' s of
        (Inl e, s') \<Rightarrow> (False, s')
      | (Inr response, s') \<Rightarrow>
          (error_code_ok response \<and> \<not> (400 \<le> status_code response \<and> status_code response < 600), s'))\<close>
  by (auto simp: delete_task_def delete_task_try_def except_False_def bnd_def lift_def ret_def
        raise_for_status_def error_code_raised error_code_returned
      split: prod.splits sum.splits if_splits)

text \<open>
  C9, as amended. \<open>pause_task\<close> and \<open>start_task\<close> return \<open>True\<close> exactly when the patch
  request is answered and the \<open>error_code\<close> of the answer is 0 or absent; \<open>delete_task\<close>
  asks in addition that the status of the answer is not an error status (400 to 599).
  Each returns \<open>False\<close> otherwise, also when the block raises; none raises.
\<close>

theorem task_control_result:
  \<open>pause_task E task_id s =
     (case patch_request E task_id ''{"phase":"pause"}'' s of
        (Inl e, s') \<Rightarrow> (False, s')
      | (Inr response, s') \<Rightarrow> (error_code_ok response, s')) \<and>
   start_task E task_id s =
     (case patch_request E task_id ''{"phase":"running"}'' s of
        (Inl e, s') \<Rightarrow> (False, s')
      | (Inr response, s') \<Rightarrow> (error_code_ok response, s')) \<and>
   delete_task E task_id s =
     (case patch_request E task_id ''{"phase":"delete"}'' s of
        (Inl e, s') \<Rightarrow> (False, s')
      | (Inr response, s') \<Rightarrow>
          (error_code_ok response \<and> \<not> (400 \<le> status_code response \<and> status_code response < 600), s'))\<close>
  using pause_task_result start_task_result delete_task_result by blast

theorem task_control_result_witness:
  "fst (pause_task (demo JNull JNull (json_response (JObj [(''error_code'', JNum 0)]))) ''t1'' new_client) = True \<and>
   fst (start_task (demo JNull JNull (json_response (JObj [(''error_code'', JNum 7)]))) ''t1'' new_client) = False \<and>
   fst (delete_task (demo JNull JNull (json_response (JObj []))) ''t1'' new_client) = True \<and>
   fst (delete_task (strict_env offline (\<lambda>n. 0)) ''t1'' new_client) = False"
  using task_control_result [of "demo JNull JNull (json_response (JObj [(''error_code'', JNum 0)]))" "''t1''" new_client]
    task_control_result [of "demo JNull JNull (json_response (JObj [(''error_code'', JNum 7)]))" "''t1''" new_client]
    task_control_result [of "demo JNull JNull (json_response (JObj []))" "''t1''" new_client]
    task_control_result [of "strict_env offline (\<lambda>n. 0)" "''t1''" new_client]
  by (simp add: run_simps patch_request_def error_code_ok_def)

theorem task_control_result_counterexample:
  "error_code_ok \<lparr>status_code = 500, resp_text = [], json_body = Some (JObj [])\<rparr> \<and>
   fst (delete_task
          (demo JNull JNull \<lparr>status_code = 500, resp_text = [], json_body = Some (JObj [])\<rparr>)
          ''t1'' new_client) = False \<and>
   fst (pause_task
          (demo JNull JNull \<lparr>status_code = 500, resp_text = [], json_body = Some (JObj [])\<rparr>)
          ''t1'' new_client) = True"
  by (simp add: run_simps error_code_ok_def delete_task_def delete_task_try_def pause_task_def
        pause_task_try_def except_False_def patch_request_def raise_for_status_def)

end
